theory Spec2Isabelle
  imports Main
begin

section \<open>Python values\<close>

text \<open>
  A Python \<open>str\<close> is a sequence of Unicode code points; \<open>len\<close>, slicing and the
  \<open>min_length\<close>/\<open>max_length\<close> constraints of a field all count code points. The source
  has literals outside ASCII, so a string is a list of code points and \<open>ascii\<close> embeds
  an ASCII literal.
\<close>

type_synonym pystr = "nat list"

definition ascii :: "string \<Rightarrow> pystr" where
  "ascii s = map of_char s"

definition CHECK_MARK :: pystr where
  \<comment> \<open>U+2705\<close>
  "CHECK_MARK = [9989]"

definition CROSS_MARK :: pystr where
  \<comment> \<open>U+274C\<close>
  "CROSS_MARK = [10060]"

definition WARNING_SIGN :: pystr where
  \<comment> \<open>U+26A0 followed by the variation selector U+FE0F\<close>
  "WARNING_SIGN = [9888, 65039]"

definition EM_DASH :: pystr where
  \<comment> \<open>U+2014\<close>
  "EM_DASH = [8212]"

text \<open>
  The exceptions the handlers tell apart: \<open>except ImportError\<close> comes before
  \<open>except Exception\<close> in \<open>test_database\<close>. Both constructors are instances of Python's
  \<open>Exception\<close> (\<open>ModuleNotFoundError\<close> is an \<open>ImportError\<close>); the argument is what
  \<open>str(e)\<close> returns. These are the failures a module can raise; \<open>KeyboardInterrupt\<close>
  and \<open>SystemExit\<close>, which no \<open>except Exception\<close> catches, end the process and are
  not modelled.
\<close>

datatype exc = ImportError pystr | OtherException pystr

fun str_exc :: "exc \<Rightarrow> pystr" where
  "str_exc (ImportError m) = m"
| "str_exc (OtherException m) = m"

definition truthy :: "pystr option \<Rightarrow> bool" where
  \<comment> \<open>the truth value of what \<open>os.getenv\<close> returns: \<open>None\<close> and the empty string are false\<close>
  "truthy v = (case v of None \<Rightarrow> False | Some s \<Rightarrow> s \<noteq> [])"

section \<open>Data model\<close>

record ContactMessage =
  name :: pystr
  email :: pystr
  message :: pystr

record Project =
  title :: pystr
  description :: pystr
  stack :: "pystr list"
  github :: "pystr option"
  api_docs :: "pystr option"

record ExperienceItem =
  title :: pystr
  organization :: pystr
  period :: pystr
  description :: pystr
  tags :: "pystr list"

definition PROJECTS :: "Project list" where
  "PROJECTS = [
     \<lparr> Project.title = ascii ''Scalable Task Queue with Distributed Workers'',
       Project.description = ascii ''Built a Celery + RabbitMQ based task processing system with autoscaling workers, metrics, and retries.'',
       stack = [ascii ''Python'', ascii ''FastAPI'', ascii ''Celery'', ascii ''RabbitMQ'', ascii ''Docker'', ascii ''Prometheus''],
       github = Some (ascii ''https://github.com/example/scalable-task-queue''),
       api_docs = None \<rparr>,
     \<lparr> Project.title = ascii ''API Gateway & Auth Service'',
       Project.description = ascii ''Kong gateway with JWT auth service, rate limiting, and observability integrated.'',
       stack = [ascii ''Kong'', ascii ''PostgreSQL'', ascii ''Redis'', ascii ''Go'', ascii ''Docker'', ascii ''Grafana''],
       github = Some (ascii ''https://github.com/example/api-gateway-auth''),
       api_docs = Some (ascii ''https://api.example.com/docs'') \<rparr>,
     \<lparr> Project.title = ascii ''Event-Driven Microservices'',
       Project.description = ascii ''Microservices communicating via Kafka with schema registry and idempotent consumers.'',
       stack = [ascii ''Node.js'', ascii ''TypeScript'', ascii ''Kafka'', ascii ''PostgreSQL'', ascii ''Docker'', ascii ''Kubernetes''],
       github = Some (ascii ''https://github.com/example/event-driven-services''),
       api_docs = None \<rparr>
   ]"

definition EXPERIENCE :: "ExperienceItem list" where
  "EXPERIENCE = [
     \<lparr> ExperienceItem.title = ascii ''Open-source Contributor'',
       organization = ascii ''FastAPI Ecosystem'',
       period = ascii ''2022 '' @ EM_DASH @ ascii '' Present'',
       ExperienceItem.description = ascii ''Contributed bug fixes and performance tweaks, improved docs, and triaged issues.'',
       tags = [ascii ''FastAPI'', ascii ''Open Source'', ascii ''Performance''] \<rparr>,
     \<lparr> ExperienceItem.title = ascii ''Freelance Backend Developer'',
       organization = ascii ''Remote'',
       period = ascii ''2021 '' @ EM_DASH @ ascii '' 2024'',
       ExperienceItem.description = ascii ''Delivered APIs, database schemas, and deployment pipelines for startups and solo founders.'',
       tags = [ascii ''APIs'', ascii ''Databases'', ascii ''CI/CD''] \<rparr>,
     \<lparr> ExperienceItem.title = ascii ''Personal Projects'',
       organization = ascii ''Various'',
       period = ascii ''Ongoing'',
       ExperienceItem.description = ascii ''R&D on distributed systems, caching strategies, and resilience patterns.'',
       tags = [ascii ''Kafka'', ascii ''Caching'', ascii ''Resilience''] \<rparr>
   ]"

text \<open>
  The module-level variables of \<open>main.py\<close> that hold the catalog. They are ordinary
  Python lists, so the handlers receive them as state and hand the state back.
\<close>

record globals =
  g_PROJECTS :: "Project list"
  g_EXPERIENCE :: "ExperienceItem list"

definition initial_globals :: globals where
  "initial_globals = \<lparr> g_PROJECTS = PROJECTS, g_EXPERIENCE = EXPERIENCE \<rparr>"

section \<open>The optional \<open>database\<close> module and the environment\<close>

text \<open>
  \<open>main.py\<close> imports \<open>database\<close> inside its handlers. What the module does is not part
  of the program, so each step is an outcome the handler observes: a statement either
  raises (\<open>Inl\<close>) or yields a value (\<open>Inr\<close>).
\<close>

record db_handle =
  db_name :: "pystr option"
    \<comment> \<open>\<open>None\<close>: \<open>hasattr(db, "name")\<close> is false; \<open>Some n\<close>: \<open>db.name\<close> is \<open>n\<close>\<close>
  list_collection_names :: "exc + pystr list"

record database_module =
  create_document :: "exc + (pystr \<Rightarrow> ContactMessage \<Rightarrow> exc + pystr)"
    \<comment> \<open>\<open>from database import create_document\<close>, then the call\<close>
  db :: "exc + db_handle option"
    \<comment> \<open>\<open>from database import db\<close>; \<open>Inr None\<close> is \<open>db is None\<close>\<close>

type_synonym environ = "string \<rightharpoonup> pystr"

definition getenv :: "environ \<Rightarrow> string \<Rightarrow> pystr option" where
  "getenv env key = env key"

section \<open>Validation of the request body\<close>

text \<open>
  \<open>ContactMessage\<close> declares \<open>name\<close> with \<open>min_length=2, max_length=100\<close>, \<open>email\<close> as
  \<open>EmailStr\<close> and \<open>message\<close> with \<open>min_length=10, max_length=2000\<close>; all three are
  required strings. The bounds are the source's. Running the checks is the framework's
  work (the handler declares \<open>payload: ContactMessage\<close>): it validates every field of
  the body, collects the errors of all of them in declaration order, and calls the
  handler only when there is none. The email syntax check belongs to the framework as
  well and is a parameter: it returns the normalised address, or \<open>None\<close> for a string
  that is not an email address.
\<close>

datatype field = Name | Email | Message

datatype error_type = string_too_short | string_too_long | value_error

type_synonym error_detail = "field \<times> error_type"

definition check_length :: "nat \<Rightarrow> nat \<Rightarrow> pystr \<Rightarrow> error_type option" where
  "check_length min_length max_length s =
     (if length s < min_length then Some string_too_short
      else if max_length < length s then Some string_too_long
      else None)"

definition validate_name :: "pystr \<Rightarrow> error_detail list" where
  "validate_name s =
     (case check_length 2 100 s of None \<Rightarrow> [] | Some t \<Rightarrow> [(Name, t)])"

definition validate_message :: "pystr \<Rightarrow> error_detail list" where
  "validate_message s =
     (case check_length 10 2000 s of None \<Rightarrow> [] | Some t \<Rightarrow> [(Message, t)])"

definition validate :: "(pystr \<Rightarrow> pystr option) \<Rightarrow> ContactMessage \<Rightarrow> error_detail list + ContactMessage" where
  "validate EmailStr candidate =
     (case EmailStr (email candidate) of
        None \<Rightarrow>
          Inl (validate_name (name candidate) @ [(Email, value_error)]
               @ validate_message (message candidate))
      | Some normalised \<Rightarrow>
          (let errors = validate_name (name candidate) @ validate_message (message candidate)
           in if errors \<noteq> [] then Inl errors
              else Inr (candidate\<lparr>email := normalised\<rparr>)))"

section \<open>Handlers\<close>

definition read_root :: "exc + pystr" where
  "read_root = Inr (ascii ''Portfolio API running'')"

definition hello :: "exc + pystr" where
  "hello = Inr (ascii ''Hello from the backend API!'')"

definition get_projects :: "globals \<Rightarrow> (exc + Project list) \<times> globals" where
  "get_projects g = (Inr (g_PROJECTS g), g)"

definition get_experience :: "globals \<Rightarrow> (exc + ExperienceItem list) \<times> globals" where
  "get_experience g = (Inr (g_EXPERIENCE g), g)"

record contact_response =
  status :: pystr
  stored_id :: "pystr option"

definition submit_contact :: "database_module \<Rightarrow> ContactMessage \<Rightarrow> exc + contact_response" where
  "submit_contact dbm payload =
     (let stored_id = (None :: pystr option);
          attempt = (case create_document dbm of
                       Inl e \<Rightarrow> Inl e
                     | Inr f \<Rightarrow> f (ascii ''message'') payload);
          stored_id = (case attempt of
                         Inr v \<Rightarrow> Some v
                       | Inl e \<Rightarrow> None)
      in Inr \<lparr> status = ascii ''ok'', stored_id = stored_id \<rparr>)"

record snapshot =
  backend :: pystr
  database :: pystr
  database_url :: "pystr option"
  database_name :: "pystr option"
  connection_status :: pystr
  collections :: "pystr list"

definition initial_response :: snapshot where
  "initial_response =
     \<lparr> backend = CHECK_MARK @ ascii '' Running'',
       database = CROSS_MARK @ ascii '' Not Available'',
       database_url = None,
       database_name = None,
       connection_status = ascii ''Not Connected'',
       collections = [] \<rparr>"

definition probe_handle :: "db_handle \<Rightarrow> snapshot \<Rightarrow> snapshot" where
  \<comment> \<open>the branch \<open>db is not None\<close>, with its inner \<open>try\<close>\<close>
  "probe_handle h response =
     (let response = response\<lparr>database := CHECK_MARK @ ascii '' Available''\<rparr>;
          response = response\<lparr>database_url := Some (CHECK_MARK @ ascii '' Configured'')\<rparr>;
          response = response\<lparr>database_name :=
                       Some (case db_name h of
                               Some n \<Rightarrow> n
                             | None \<Rightarrow> CHECK_MARK @ ascii '' Connected'')\<rparr>;
          response = response\<lparr>connection_status := ascii ''Connected''\<rparr>
      in case list_collection_names h of
           Inr cs \<Rightarrow>
             (let response = response\<lparr>collections := take 10 cs\<rparr>
              in response\<lparr>database := CHECK_MARK @ ascii '' Connected & Working''\<rparr>)
         | Inl e \<Rightarrow>
             response\<lparr>database := WARNING_SIGN @ ascii ''  Connected but Error: ''
                                    @ take 50 (str_exc e)\<rparr>)"

definition probe :: "database_module \<Rightarrow> snapshot \<Rightarrow> exc option \<times> snapshot" where
  \<comment> \<open>the body of the outer \<open>try\<close>: the exception that leaves it, if any, and the
      dictionary as it is at that point\<close>
  "probe dbm response =
     (case db dbm of
        Inl e \<Rightarrow> (Some e, response)
      | Inr (Some h) \<Rightarrow> (None, probe_handle h response)
      | Inr None \<Rightarrow>
          (None, response\<lparr>database := WARNING_SIGN @ ascii ''  Available but not initialized''\<rparr>))"

definition test_database :: "database_module \<Rightarrow> environ \<Rightarrow> exc + snapshot" where
  "test_database dbm env =
     (let response = initial_response;
          (raised, response) = probe dbm response;
          response = (case raised of
                        None \<Rightarrow> response
                      | Some (ImportError m) \<Rightarrow>
                          response\<lparr>database := CROSS_MARK
                            @ ascii '' Database module not found (run enable-database first)''\<rparr>
                      | Some e \<Rightarrow>
                          response\<lparr>database := CROSS_MARK @ ascii '' Error: ''
                                                 @ take 50 (str_exc e)\<rparr>);
          response = response\<lparr>database_url :=
                       Some (if truthy (getenv env ''DATABASE_URL'')
                             then CHECK_MARK @ ascii '' Set''
                             else CROSS_MARK @ ascii '' Not Set'')\<rparr>;
          response = response\<lparr>database_name :=
                       Some (if truthy (getenv env ''DATABASE_NAME'')
                             then CHECK_MARK @ ascii '' Set''
                             else CROSS_MARK @ ascii '' Not Set'')\<rparr>
      in Inr response)"

section \<open>The application\<close>

text \<open>
  A request is routed to its handler. The body of \<open>POST /api/contact\<close> is validated
  before \<open>submit_contact\<close> runs; a body that fails validation is answered with the list
  of errors and the handler is not called. An exception that leaves a handler would be
  answered with an internal server error.
\<close>

datatype failure = ValidationError "error_detail list" | Uncaught exc

definition submitContact ::
  "(pystr \<Rightarrow> pystr option) \<Rightarrow> database_module \<Rightarrow> ContactMessage \<Rightarrow> failure + contact_response" where
  "submitContact EmailStr dbm candidate =
     (case validate EmailStr candidate of
        Inl errors \<Rightarrow> Inl (ValidationError errors)
      | Inr payload \<Rightarrow>
          (case submit_contact dbm payload of
             Inl e \<Rightarrow> Inl (Uncaught e)
           | Inr r \<Rightarrow> Inr r))"

datatype request =
    GET_root
  | GET_api_hello
  | GET_api_projects
  | GET_api_experience
  | POST_api_contact ContactMessage
  | GET_test

datatype response =
    MessageBody pystr
  | ProjectsBody "Project list"
  | ExperienceBody "ExperienceItem list"
  | ContactBody contact_response
  | SnapshotBody snapshot
  | UnprocessableEntity "error_detail list"
  | InternalServerError exc

record req_context =
  ctx_EmailStr :: "pystr \<Rightarrow> pystr option"
  ctx_database :: database_module
  ctx_environ :: environ

fun respond :: "('a \<Rightarrow> response) \<Rightarrow> exc + 'a \<Rightarrow> response" where
  "respond body (Inr v) = body v"
| "respond body (Inl e) = InternalServerError e"

fun app :: "req_context \<Rightarrow> request \<Rightarrow> globals \<Rightarrow> response \<times> globals" where
  "app ctx GET_root g = (respond MessageBody read_root, g)"
| "app ctx GET_api_hello g = (respond MessageBody hello, g)"
| "app ctx GET_api_projects g = (let (r, g') = get_projects g in (respond ProjectsBody r, g'))"
| "app ctx GET_api_experience g = (let (r, g') = get_experience g in (respond ExperienceBody r, g'))"
| "app ctx (POST_api_contact candidate) g =
     (case submitContact (ctx_EmailStr ctx) (ctx_database ctx) candidate of
        Inl (ValidationError errors) \<Rightarrow> (UnprocessableEntity errors, g)
      | Inl (Uncaught e) \<Rightarrow> (InternalServerError e, g)
      | Inr r \<Rightarrow> (ContactBody r, g))"
| "app ctx GET_test g =
     (respond SnapshotBody (test_database (ctx_database ctx) (ctx_environ ctx)), g)"

text \<open>Serving a sequence of requests, each in the context it arrives in.\<close>

fun serve :: "(req_context \<times> request) list \<Rightarrow> globals \<Rightarrow> response list \<times> globals" where
  "serve [] g = ([], g)"
| "serve ((ctx, req) # rest) g =
     (let (r, g') = app ctx req g;
          (rs, g'') = serve rest g'
      in (r # rs, g''))"

section \<open>Sample inputs\<close>

text \<open>
  Concrete bodies, modules and environments on which the properties below are
  evaluated. \<open>contains_at\<close> stands in for the email check: it accepts a string that
  has an \<open>@\<close> (code point 64) and returns it unchanged.
\<close>

definition contains_at :: "pystr \<Rightarrow> pystr option" where
  "contains_at s = (if 64 \<in> set s then Some s else None)"

definition jo :: ContactMessage where
  "jo = \<lparr> name = ascii ''Jo'', email = ascii ''jo@x.com'',
          message = ascii ''Hello there, this is long enough.'' \<rparr>"

definition bad_candidate :: ContactMessage where
  "bad_candidate = \<lparr> name = ascii ''A'', email = ascii ''not-an-email'',
                     message = ascii ''short'' \<rparr>"

definition module_absent :: database_module where
  \<comment> \<open>there is no \<open>database\<close> module: both imports raise \<open>ModuleNotFoundError\<close>\<close>
  "module_absent =
     \<lparr> create_document = Inl (ImportError (ascii ''No module named database'')),
       db = Inl (ImportError (ascii ''No module named database'')) \<rparr>"

definition module_unconfigured :: database_module where
  \<comment> \<open>the module is there, no store is configured: \<open>db\<close> is \<open>None\<close> and
      \<open>create_document\<close> raises\<close>
  "module_unconfigured =
     \<lparr> create_document =
         Inr (\<lambda>collection_name data. Inl (OtherException (ascii ''Database not available''))),
       db = Inr None \<rparr>"

definition twelve_collections :: "pystr list" where
  "twelve_collections =
     [ascii ''c01'', ascii ''c02'', ascii ''c03'', ascii ''c04'', ascii ''c05'', ascii ''c06'',
      ascii ''c07'', ascii ''c08'', ascii ''c09'', ascii ''c10'', ascii ''c11'', ascii ''c12'']"

definition module_working :: database_module where
  "module_working =
     \<lparr> create_document = Inr (\<lambda>collection_name data. Inr (ascii ''65f1c0ffee'')),
       db = Inr (Some \<lparr> db_name = Some (ascii ''portfolio''),
                        list_collection_names = Inr twelve_collections \<rparr>) \<rparr>"

definition sixty_chars :: pystr where
  "sixty_chars = ascii ''0123456789012345678901234567890123456789012345678901234567890''"

definition module_listing_fails :: database_module where
  "module_listing_fails =
     \<lparr> create_document = Inr (\<lambda>collection_name data. Inl (OtherException sixty_chars)),
       db = Inr (Some \<lparr> db_name = None,
                        list_collection_names = Inl (OtherException sixty_chars) \<rparr>) \<rparr>"

definition module_import_breaks :: database_module where
  \<comment> \<open>the module exists and raises while it is imported\<close>
  "module_import_breaks =
     \<lparr> create_document = Inl (OtherException sixty_chars),
       db = Inl (OtherException sixty_chars) \<rparr>"

definition env_empty_url :: environ where
  \<comment> \<open>\<open>DATABASE_URL\<close> is set to the empty string and \<open>DATABASE_NAME\<close> is not set\<close>
  "env_empty_url = Map.empty(''DATABASE_URL'' \<mapsto> [])"

definition env_configured :: environ where
  "env_configured = Map.empty(''DATABASE_URL'' \<mapsto> ascii ''mongodb://localhost:27017'',
                              ''DATABASE_NAME'' \<mapsto> ascii ''portfolio'')"

definition sample_ctx :: req_context where
  "sample_ctx = \<lparr> ctx_EmailStr = contains_at, ctx_database = module_unconfigured,
                  ctx_environ = Map.empty \<rparr>"

definition sample_history :: "(req_context \<times> request) list" where
  "sample_history =
     [(sample_ctx, GET_api_projects), (sample_ctx, POST_api_contact jo), (sample_ctx, GET_test),
      (sample_ctx, GET_api_projects), (sample_ctx, GET_api_experience),
      (sample_ctx, POST_api_contact bad_candidate), (sample_ctx, GET_api_experience)]"

section \<open>Properties\<close>

lemmas validation_defs =
  validate_def validate_name_def validate_message_def check_length_def

lemmas test_database_defs =
  test_database_def probe_def probe_handle_def initial_response_def getenv_def

subsection \<open>The catalog is never written\<close>

lemma app_globals: "snd (app ctx req g) = g"
  by (cases req)
     (simp_all add: get_projects_def get_experience_def split: sum.splits failure.splits)

lemma serve_globals: "snd (serve h g) = g"
proof (induction h arbitrary: g)
  case Nil
  show ?case by simp
next
  case (Cons a h)
  obtain ctx req where a: "a = (ctx, req)" by (cases a)
  obtain r g' where step: "app ctx req g = (r, g')" by (cases "app ctx req g")
  have "g' = g" using app_globals [of ctx req g] step by simp
  moreover obtain rs g'' where rest: "serve h g = (rs, g'')" by (cases "serve h g")
  moreover have "g'' = g" using Cons.IH [of g] rest by simp
  ultimately show ?case using a step by simp
qed

lemma serve_nth:
  "i < length h \<Longrightarrow> fst (serve h g) ! i = fst (app (fst (h ! i)) (snd (h ! i)) g)"
proof (induction h arbitrary: g i)
  case Nil
  then show ?case by simp
next
  case (Cons a h)
  obtain ctx req where a: "a = (ctx, req)" by (cases a)
  obtain r g' where step: "app ctx req g = (r, g')" by (cases "app ctx req g")
  have g': "g' = g" using app_globals [of ctx req g] step by simp
  obtain rs g'' where rest: "serve h g = (rs, g'')" by (cases "serve h g")
  show ?case
  proof (cases i)
    case 0
    then show ?thesis using a step g' rest by simp
  next
    case (Suc j)
    then have "j < length h" using Cons.prems by simp
    then have "fst (serve h g) ! j = fst (app (fst (h ! j)) (snd (h ! j)) g)"
      by (rule Cons.IH)
    then show ?thesis using a step g' rest Suc by simp
  qed
qed

text \<open>
  C7. The lists of projects and of experience items are never empty and never change
  at runtime: after any sequence of requests, served in any contexts, both module
  variables hold their initial values, and neither initial value is empty.
\<close>

theorem catalog_never_changes:
  "snd (serve h initial_globals) = initial_globals
   \<and> g_PROJECTS (snd (serve h initial_globals)) = PROJECTS \<and> PROJECTS \<noteq> []
   \<and> g_EXPERIENCE (snd (serve h initial_globals)) = EXPERIENCE \<and> EXPERIENCE \<noteq> []"
  by (simp add: serve_globals) (simp add: initial_globals_def PROJECTS_def EXPERIENCE_def)

text \<open>
  C6. On a fresh instance, \<open>GET /api/projects\<close> returns exactly 3 entries; the first
  is titled "Scalable Task Queue with Distributed Workers" and its stack contains
  "FastAPI".
\<close>

theorem fresh_projects_response:
  "\<exists>p ps. fst (app ctx GET_api_projects initial_globals) = ProjectsBody (p # ps)
     \<and> length (p # ps) = 3
     \<and> Project.title p = ascii ''Scalable Task Queue with Distributed Workers''
     \<and> ascii ''FastAPI'' \<in> set (stack p)"
  by (simp add: get_projects_def initial_globals_def PROJECTS_def)

subsection \<open>Contact intake\<close>

text \<open>
  C1. For every body whose name has 2 to 100 characters, whose email is a valid
  address and whose message has 10 to 2000 characters, \<open>submitContact\<close> returns a
  response with status "ok", whatever the \<open>database\<close> module does: absent, raising
  when imported, or raising when \<open>create_document\<close> is called. No failure of the
  persistence attempt leaves \<open>submit_contact\<close>.
\<close>

theorem submitContact_valid_ok:
  assumes "2 \<le> length (name c)" and "length (name c) \<le> 100"
    and "EmailStr (email c) \<noteq> None"
    and "10 \<le> length (message c)" and "length (message c) \<le> 2000"
  shows "(\<exists>r. submitContact EmailStr dbm c = Inr r \<and> status r = ascii ''ok'')
       \<and> (\<exists>r. submit_contact dbm payload = Inr r \<and> status r = ascii ''ok'')"
proof
  obtain normalised where n: "EmailStr (email c) = Some normalised"
    using assms(3) by blast
  have "validate EmailStr c = Inr (c\<lparr>email := normalised\<rparr>)"
    using assms n by (simp add: validation_defs)
  then show "\<exists>r. submitContact EmailStr dbm c = Inr r \<and> status r = ascii ''ok''"
    by (simp add: submitContact_def submit_contact_def)
next
  show "\<exists>r. submit_contact dbm payload = Inr r \<and> status r = ascii ''ok''"
    by (simp add: submit_contact_def)
qed

theorem submitContact_valid_ok_witness:
  "(2 \<le> length (name jo) \<and> length (name jo) \<le> 100
      \<and> contains_at (email jo) \<noteq> None
      \<and> 10 \<le> length (message jo) \<and> length (message jo) \<le> 2000)
   \<and> (\<exists>r. submitContact contains_at module_unconfigured jo = Inr r \<and> status r = ascii ''ok'')
   \<and> (\<exists>r. submitContact contains_at module_absent jo = Inr r \<and> status r = ascii ''ok'')
   \<and> (\<exists>r. submitContact contains_at module_import_breaks jo = Inr r \<and> status r = ascii ''ok'')"
proof -
  have h: "2 \<le> length (name jo)" "length (name jo) \<le> 100"
      "contains_at (email jo) \<noteq> None"
      "10 \<le> length (message jo)" "length (message jo) \<le> 2000"
    by (simp_all add: jo_def contains_at_def ascii_def)
  show ?thesis
    using h
      submitContact_valid_ok [where c = jo and EmailStr = contains_at and dbm = module_unconfigured]
      submitContact_valid_ok [where c = jo and EmailStr = contains_at and dbm = module_absent]
      submitContact_valid_ok [where c = jo and EmailStr = contains_at and dbm = module_import_breaks]
    by simp
qed

text \<open>
  C2. For every body that violates a field constraint (name shorter than 2 or longer
  than 100, email not a valid address, message shorter than 10 or longer than 2000),
  \<open>submitContact\<close> fails with a \<open>ValidationError\<close> that lists every failing field, in
  declaration order, and not only the first; no response with an identifier is produced;
  and a \<open>ValidationError\<close> is the only failure \<open>submitContact\<close> ever returns, for any
  body and any \<open>database\<close> module.
\<close>

theorem submitContact_invalid_enumerates:
  assumes "length (name c) < 2 \<or> 100 < length (name c) \<or> EmailStr (email c) = None
           \<or> length (message c) < 10 \<or> 2000 < length (message c)"
  shows "(\<exists>errors. submitContact EmailStr dbm c = Inl (ValidationError errors)
            \<and> errors \<noteq> []
            \<and> map fst errors =
                (if length (name c) < 2 \<or> 100 < length (name c) then [Name] else [])
              @ (if EmailStr (email c) = None then [Email] else [])
              @ (if length (message c) < 10 \<or> 2000 < length (message c) then [Message] else []))
       \<and> (\<forall>r. submitContact EmailStr dbm c \<noteq> Inr r)
       \<and> (\<forall>E d c' f. submitContact E d c' = Inl f \<longrightarrow>
              (\<exists>errors. f = ValidationError errors \<and> errors \<noteq> []))"
proof (intro conjI)
  have name_fields: "map fst (validate_name (name c)) =
      (if length (name c) < 2 \<or> 100 < length (name c) then [Name] else [])"
    by (simp add: validate_name_def check_length_def)
  have message_fields: "map fst (validate_message (message c)) =
      (if length (message c) < 10 \<or> 2000 < length (message c) then [Message] else [])"
    by (simp add: validate_message_def check_length_def)
  obtain errors where v: "validate EmailStr c = Inl errors" and ne: "errors \<noteq> []"
    and fields: "map fst errors = map fst (validate_name (name c))
           @ (if EmailStr (email c) = None then [Email] else [])
           @ map fst (validate_message (message c))"
  proof (cases "EmailStr (email c)")
    case None
    then show ?thesis using that by (simp add: validate_def)
  next
    case (Some normalised)
    with assms have "validate_name (name c) @ validate_message (message c) \<noteq> []"
      by (auto simp: validate_name_def validate_message_def check_length_def)
    with Some show ?thesis using that by (simp add: validate_def)
  qed
  show "\<exists>errors. submitContact EmailStr dbm c = Inl (ValidationError errors)
            \<and> errors \<noteq> []
            \<and> map fst errors =
                (if length (name c) < 2 \<or> 100 < length (name c) then [Name] else [])
              @ (if EmailStr (email c) = None then [Email] else [])
              @ (if length (message c) < 10 \<or> 2000 < length (message c) then [Message] else [])"
    using v ne fields name_fields message_fields by (simp add: submitContact_def)
  show "\<forall>r. submitContact EmailStr dbm c \<noteq> Inr r"
    using v by (simp add: submitContact_def)
  show "\<forall>E d c' f. submitContact E d c' = Inl f \<longrightarrow>
              (\<exists>errors. f = ValidationError errors \<and> errors \<noteq> [])"
    by (auto simp: submitContact_def submit_contact_def validate_def Let_def
             split: sum.splits if_splits option.splits)
qed

theorem submitContact_invalid_enumerates_witness:
  "(length (name bad_candidate) < 2 \<and> contains_at (email bad_candidate) = None
      \<and> length (message bad_candidate) < 10)
   \<and> submitContact contains_at module_working bad_candidate =
       Inl (ValidationError
             [(Name, string_too_short), (Email, value_error), (Message, string_too_short)])"
proof -
  have h: "length (name bad_candidate) < 2" "contains_at (email bad_candidate) = None"
      "length (message bad_candidate) < 10"
    by (simp_all add: bad_candidate_def contains_at_def ascii_def)
  have e: "submitContact contains_at module_working bad_candidate =
       Inl (ValidationError
             [(Name, string_too_short), (Email, value_error), (Message, string_too_short)])"
    by (simp add: submitContact_def validation_defs bad_candidate_def contains_at_def ascii_def)
  show ?thesis
    using h e
      submitContact_invalid_enumerates
        [where c = bad_candidate and EmailStr = contains_at and dbm = module_working]
    by simp
qed

text \<open>
  C4. For every valid body, the \<open>stored_id\<close> of the response is the value
  \<open>create_document\<close> returned when the call succeeded, and null whenever the import
  or the call raised. In particular the body
  \<open>{name: "Jo", email: "jo@x.com", message: "Hello there, this is long enough."}\<close> is
  answered with exactly \<open>{status: "ok", stored_id: null}\<close> when no store is configured.
\<close>

theorem stored_id_from_collaborator:
  assumes "2 \<le> length (name c)" and "length (name c) \<le> 100"
    and "EmailStr (email c) = Some normalised"
    and "10 \<le> length (message c)" and "length (message c) \<le> 2000"
  shows "(\<forall>f v. create_document dbm = Inr f
                \<and> f (ascii ''message'') (c\<lparr>email := normalised\<rparr>) = Inr v \<longrightarrow>
            submitContact EmailStr dbm c = Inr \<lparr> status = ascii ''ok'', stored_id = Some v \<rparr>)
       \<and> ((\<exists>e. create_document dbm = Inl e)
            \<or> (\<exists>f e. create_document dbm = Inr f
                   \<and> f (ascii ''message'') (c\<lparr>email := normalised\<rparr>) = Inl e) \<longrightarrow>
            submitContact EmailStr dbm c = Inr \<lparr> status = ascii ''ok'', stored_id = None \<rparr>)"
proof -
  have "validate EmailStr c = Inr (c\<lparr>email := normalised\<rparr>)"
    using assms by (simp add: validation_defs)
  then show ?thesis
    by (auto simp: submitContact_def submit_contact_def)
qed

theorem stored_id_from_collaborator_witness:
  "submitContact contains_at module_absent jo
     = Inr \<lparr> status = ascii ''ok'', stored_id = None \<rparr>
   \<and> submitContact contains_at module_unconfigured jo
     = Inr \<lparr> status = ascii ''ok'', stored_id = None \<rparr>
   \<and> submitContact contains_at module_working jo
     = Inr \<lparr> status = ascii ''ok'', stored_id = Some (ascii ''65f1c0ffee'') \<rparr>"
proof -
  have h: "2 \<le> length (name jo)" "length (name jo) \<le> 100"
      "contains_at (email jo) = Some (email jo)"
      "10 \<le> length (message jo)" "length (message jo) \<le> 2000"
    by (simp_all add: jo_def contains_at_def ascii_def)
  show ?thesis
    using h
      stored_id_from_collaborator
        [where c = jo and EmailStr = contains_at and normalised = "email jo"
           and dbm = module_absent]
      stored_id_from_collaborator
        [where c = jo and EmailStr = contains_at and normalised = "email jo"
           and dbm = module_unconfigured]
      stored_id_from_collaborator
        [where c = jo and EmailStr = contains_at and normalised = "email jo"
           and dbm = module_working]
    by (simp add: module_absent_def module_unconfigured_def module_working_def)
qed

subsection \<open>Catalog reads\<close>

lemma serve_length: "length (fst (serve h g)) = length h"
proof (induction h arbitrary: g)
  case Nil
  show ?case by simp
next
  case (Cons a h)
  obtain ctx req where a: "a = (ctx, req)" by (cases a)
  obtain r g' where step: "app ctx req g = (r, g')" by (cases "app ctx req g")
  obtain rs g'' where rest: "serve h g' = (rs, g'')" by (cases "serve h g'")
  have "length rs = length h" using Cons.IH [of g'] rest by simp
  then show ?case using a step rest by simp
qed

lemma serve_repeated:
  "fst (serve (map (\<lambda>ctx. (ctx, req)) ctxs) g) = map (\<lambda>ctx. fst (app ctx req g)) ctxs"
  by (rule nth_equalityI) (simp_all add: serve_length serve_nth)

text \<open>
  C5. \<open>get_projects\<close> and \<open>get_experience\<close> take no input, cannot fail, have no side
  effect and are idempotent: in any sequence of requests, every \<open>GET /api/projects\<close>
  is answered with the full list \<open>PROJECTS\<close> and every \<open>GET /api/experience\<close> with the
  full list \<open>EXPERIENCE\<close>, in declaration order; any number of repeated calls gives
  that many equal answers; and the module variables are left as they were.
\<close>

theorem catalog_reads_idempotent:
  "(\<forall>i < length h.
      (snd (h ! i) = GET_api_projects \<longrightarrow>
         fst (serve h initial_globals) ! i = ProjectsBody PROJECTS)
    \<and> (snd (h ! i) = GET_api_experience \<longrightarrow>
         fst (serve h initial_globals) ! i = ExperienceBody EXPERIENCE))
   \<and> snd (serve h initial_globals) = initial_globals
   \<and> fst (serve (map (\<lambda>ctx. (ctx, GET_api_projects)) ctxs) initial_globals)
       = replicate (length ctxs) (ProjectsBody PROJECTS)
   \<and> fst (serve (map (\<lambda>ctx. (ctx, GET_api_experience)) ctxs) initial_globals)
       = replicate (length ctxs) (ExperienceBody EXPERIENCE)
   \<and> get_projects initial_globals = (Inr PROJECTS, initial_globals)
   \<and> get_experience initial_globals = (Inr EXPERIENCE, initial_globals)"
  by (simp add: serve_nth serve_globals serve_repeated get_projects_def get_experience_def
        initial_globals_def map_replicate_const)

theorem catalog_reads_idempotent_witness:
  "fst (serve sample_history initial_globals) ! 0 = ProjectsBody PROJECTS
   \<and> fst (serve sample_history initial_globals) ! 3 = ProjectsBody PROJECTS
   \<and> fst (serve sample_history initial_globals) ! 4 = ExperienceBody EXPERIENCE
   \<and> fst (serve sample_history initial_globals) ! 6 = ExperienceBody EXPERIENCE"
proof -
  have len: "length sample_history = 7"
    by (simp add: sample_history_def)
  have reqs: "snd (sample_history ! 0) = GET_api_projects"
      "snd (sample_history ! 3) = GET_api_projects"
      "snd (sample_history ! 4) = GET_api_experience"
      "snd (sample_history ! 6) = GET_api_experience"
    by (simp_all add: sample_history_def)
  show ?thesis
    using catalog_reads_idempotent [of sample_history] len reqs by simp
qed

subsection \<open>Diagnostics\<close>

text \<open>
  C3. \<open>test_database\<close> never raises, changes nothing, and every branch ends in a
  descriptive string in the \<open>database\<close> field: "Database module not found" when the
  import raises \<open>ImportError\<close>; "Available but not initialized" when \<open>db\<close> is \<open>None\<close>;
  "Connected & Working", with at most the first 10 collection names, when
  \<open>list_collection_names\<close> returns; "Connected but Error" followed by at most 50
  characters of the error message when it raises.
\<close>

theorem test_database_degrades:
  "\<exists>r. test_database dbm env = Inr r
     \<and> (\<forall>m. db dbm = Inl (ImportError m) \<longrightarrow>
            database r = CROSS_MARK @ ascii '' Database module not found (run enable-database first)'')
     \<and> (db dbm = Inr None \<longrightarrow>
            database r = WARNING_SIGN @ ascii ''  Available but not initialized'')
     \<and> (\<forall>h cs. db dbm = Inr (Some h) \<and> list_collection_names h = Inr cs \<longrightarrow>
            database r = CHECK_MARK @ ascii '' Connected & Working''
            \<and> collections r = take 10 cs \<and> length (collections r) \<le> 10)
     \<and> (\<forall>h e. db dbm = Inr (Some h) \<and> list_collection_names h = Inl e \<longrightarrow>
            database r = WARNING_SIGN @ ascii ''  Connected but Error: '' @ take 50 (str_exc e)
            \<and> length (take 50 (str_exc e)) \<le> 50)
     \<and> (\<forall>ctx g. ctx_database ctx = dbm \<and> ctx_environ ctx = env \<longrightarrow>
            app ctx GET_test g = (SnapshotBody r, g))"
  by (auto simp: test_database_defs Let_def split: sum.splits option.splits exc.splits)

theorem test_database_degrades_witness:
  "(\<exists>r. test_database module_absent env_configured = Inr r
       \<and> database r = CROSS_MARK @ ascii '' Database module not found (run enable-database first)'')
   \<and> (\<exists>r. test_database module_unconfigured env_configured = Inr r
       \<and> database r = WARNING_SIGN @ ascii ''  Available but not initialized'')
   \<and> (\<exists>r. test_database module_working env_configured = Inr r
       \<and> database r = CHECK_MARK @ ascii '' Connected & Working''
       \<and> collections r = take 10 twelve_collections \<and> length (collections r) = 10)
   \<and> (\<exists>r. test_database module_listing_fails env_configured = Inr r
       \<and> database r = WARNING_SIGN @ ascii ''  Connected but Error: '' @ take 50 sixty_chars
       \<and> length (take 50 sixty_chars) = 50)"
proof (intro conjI)
  obtain r where r: "test_database module_absent env_configured = Inr r"
      "\<forall>m. db module_absent = Inl (ImportError m) \<longrightarrow>
         database r = CROSS_MARK @ ascii '' Database module not found (run enable-database first)''"
    using test_database_degrades [of module_absent env_configured] by blast
  have "db module_absent = Inl (ImportError (ascii ''No module named database''))"
    by (simp add: module_absent_def)
  with r show "\<exists>r. test_database module_absent env_configured = Inr r
       \<and> database r = CROSS_MARK @ ascii '' Database module not found (run enable-database first)''"
    by blast
next
  obtain r where r: "test_database module_unconfigured env_configured = Inr r"
      "db module_unconfigured = Inr None \<longrightarrow>
         database r = WARNING_SIGN @ ascii ''  Available but not initialized''"
    using test_database_degrades [of module_unconfigured env_configured] by blast
  have "db module_unconfigured = Inr None"
    by (simp add: module_unconfigured_def)
  with r show "\<exists>r. test_database module_unconfigured env_configured = Inr r
       \<and> database r = WARNING_SIGN @ ascii ''  Available but not initialized''"
    by blast
next
  let ?h = "\<lparr> db_name = Some (ascii ''portfolio''),
              list_collection_names = Inr twelve_collections \<rparr>"
  obtain r where r: "test_database module_working env_configured = Inr r"
      "\<forall>h cs. db module_working = Inr (Some h) \<and> list_collection_names h = Inr cs \<longrightarrow>
            database r = CHECK_MARK @ ascii '' Connected & Working''
            \<and> collections r = take 10 cs \<and> length (collections r) \<le> 10"
    using test_database_degrades [of module_working env_configured] by blast
  have "db module_working = Inr (Some ?h)" "list_collection_names ?h = Inr twelve_collections"
    by (simp_all add: module_working_def)
  with r have "database r = CHECK_MARK @ ascii '' Connected & Working''
       \<and> collections r = take 10 twelve_collections"
    by blast
  moreover have "length (take 10 twelve_collections) = 10"
    by (simp add: twelve_collections_def)
  ultimately show "\<exists>r. test_database module_working env_configured = Inr r
       \<and> database r = CHECK_MARK @ ascii '' Connected & Working''
       \<and> collections r = take 10 twelve_collections \<and> length (collections r) = 10"
    using r(1) by auto
next
  let ?h = "\<lparr> db_name = None, list_collection_names = Inl (OtherException sixty_chars) \<rparr>"
  obtain r where r: "test_database module_listing_fails env_configured = Inr r"
      "\<forall>h e. db module_listing_fails = Inr (Some h) \<and> list_collection_names h = Inl e \<longrightarrow>
            database r = WARNING_SIGN @ ascii ''  Connected but Error: '' @ take 50 (str_exc e)
            \<and> length (take 50 (str_exc e)) \<le> 50"
    using test_database_degrades [of module_listing_fails env_configured] by blast
  have "db module_listing_fails = Inr (Some ?h)"
      "list_collection_names ?h = Inl (OtherException sixty_chars)"
    by (simp_all add: module_listing_fails_def)
  with r have "database r = WARNING_SIGN @ ascii ''  Connected but Error: ''
                 @ take 50 (str_exc (OtherException sixty_chars))"
    by blast
  moreover have "length (take 50 sixty_chars) = 50"
    by (simp add: sixty_chars_def ascii_def)
  ultimately show "\<exists>r. test_database module_listing_fails env_configured = Inr r
       \<and> database r = WARNING_SIGN @ ascii ''  Connected but Error: '' @ take 50 sixty_chars
       \<and> length (take 50 sixty_chars) = 50"
    using r(1) by auto
qed

text \<open>
  C8 as stated says that \<open>database_url\<close> and \<open>database_name\<close> depend only on the
  presence of the two environment variables. The source tests the truth value of
  \<open>os.getenv(...)\<close>, and the empty string is false: with \<open>DATABASE_URL\<close> present and
  empty, the snapshot reports it as not set.
\<close>

theorem env_flag_presence_counterexample:
  "env_empty_url ''DATABASE_URL'' = Some []
   \<and> test_database module_absent env_empty_url =
       Inr \<lparr> backend = CHECK_MARK @ ascii '' Running'',
             database = CROSS_MARK @ ascii '' Database module not found (run enable-database first)'',
             database_url = Some (CROSS_MARK @ ascii '' Not Set''),
             database_name = Some (CROSS_MARK @ ascii '' Not Set''),
             connection_status = ascii ''Not Connected'',
             collections = [] \<rparr>"
  by (simp add: test_database_defs truthy_def module_absent_def env_empty_url_def)

text \<open>
  C8, amended. In the snapshot \<open>test_database\<close> returns, \<open>database_url\<close> and
  \<open>database_name\<close> are set/not-set flags determined solely by whether \<open>DATABASE_URL\<close>
  and \<open>DATABASE_NAME\<close> are set to a non-empty value, whatever the probe of the
  \<open>database\<close> module found: what the probe assigned to the two fields is overwritten
  before the snapshot is returned.
\<close>

theorem env_flags_overwrite_probe:
  "\<exists>r. test_database dbm env = Inr r
     \<and> database_url r =
         Some (if (\<exists>v. env ''DATABASE_URL'' = Some v \<and> v \<noteq> [])
               then CHECK_MARK @ ascii '' Set'' else CROSS_MARK @ ascii '' Not Set'')
     \<and> database_name r =
         Some (if (\<exists>v. env ''DATABASE_NAME'' = Some v \<and> v \<noteq> [])
               then CHECK_MARK @ ascii '' Set'' else CROSS_MARK @ ascii '' Not Set'')"
  by (auto simp: test_database_defs truthy_def Let_def
           split: sum.splits option.splits exc.splits prod.splits)

theorem env_flags_overwrite_probe_witness:
  "(\<exists>r. test_database module_working env_configured = Inr r
      \<and> database_url r = Some (CHECK_MARK @ ascii '' Set'')
      \<and> database_name r = Some (CHECK_MARK @ ascii '' Set''))
   \<and> (\<exists>r. test_database module_working env_empty_url = Inr r
      \<and> database_url r = Some (CROSS_MARK @ ascii '' Not Set'')
      \<and> database_name r = Some (CROSS_MARK @ ascii '' Not Set''))"
  using env_flags_overwrite_probe [of module_working env_configured]
    env_flags_overwrite_probe [of module_working env_empty_url]
  by (simp add: env_configured_def env_empty_url_def ascii_def)

text \<open>
  C9. If \<open>from database import db\<close> raises an exception that is not an \<open>ImportError\<close>,
  \<open>test_database\<close> still returns, and the \<open>database\<close> field is the cross mark and
  " Error: " followed by at most 50 characters of the exception's message: a branch of
  its own, different from the "module not found" report.
\<close>

theorem test_database_import_raises_other:
  assumes "db dbm = Inl e" and "\<forall>m. e \<noteq> ImportError m"
  shows "\<exists>r. test_database dbm env = Inr r
     \<and> database r = CROSS_MARK @ ascii '' Error: '' @ take 50 (str_exc e)
     \<and> length (take 50 (str_exc e)) \<le> 50
     \<and> database r \<noteq> CROSS_MARK @ ascii '' Database module not found (run enable-database first)''
     \<and> connection_status r = ascii ''Not Connected'' \<and> collections r = []"
  using assms
  by (cases e) (simp_all add: test_database_defs Let_def ascii_def)

theorem test_database_import_raises_other_witness:
  "db module_import_breaks = Inl (OtherException sixty_chars)
   \<and> (\<exists>r. test_database module_import_breaks env_configured = Inr r
        \<and> database r = CROSS_MARK @ ascii '' Error: '' @ take 50 sixty_chars
        \<and> length (take 50 sixty_chars) = 50)"
proof -
  have h: "db module_import_breaks = Inl (OtherException sixty_chars)"
      "\<forall>m. OtherException sixty_chars \<noteq> ImportError m"
    by (simp_all add: module_import_breaks_def)
  have l: "length sixty_chars = 61"
    by (simp add: sixty_chars_def ascii_def)
  show ?thesis
    using h(1) l test_database_import_raises_other [OF h, of env_configured] by auto
qed

text \<open>
  C10. When \<open>db\<close> is not \<open>None\<close> and \<open>list_collection_names\<close> raises, the snapshot keeps
  \<open>connection_status\<close> at "Connected" and \<open>collections\<close> empty; only the \<open>database\<close>
  field reports the error. A store whose listing works has the same
  \<open>connection_status\<close>, so that field alone does not tell the two apart.
\<close>

theorem listing_failure_keeps_connected:
  assumes "db dbm = Inr (Some h)" and "list_collection_names h = Inl e"
  shows "\<exists>r. test_database dbm env = Inr r
     \<and> connection_status r = ascii ''Connected'' \<and> collections r = []
     \<and> database r = WARNING_SIGN @ ascii ''  Connected but Error: '' @ take 50 (str_exc e)
     \<and> (\<forall>dbm' h' cs env'. db dbm' = Inr (Some h') \<and> list_collection_names h' = Inr cs \<longrightarrow>
           (\<exists>r'. test_database dbm' env' = Inr r'
              \<and> connection_status r' = connection_status r
              \<and> database r' \<noteq> database r))"
  using assms
  by (auto simp: test_database_defs Let_def ascii_def CHECK_MARK_def WARNING_SIGN_def)

theorem listing_failure_keeps_connected_witness:
  "(\<exists>r. test_database module_listing_fails env_configured = Inr r
      \<and> connection_status r = ascii ''Connected'' \<and> collections r = [])
   \<and> (\<exists>r'. test_database module_working env_configured = Inr r'
      \<and> connection_status r' = ascii ''Connected'')"
proof -
  let ?h = "\<lparr> db_name = None, list_collection_names = Inl (OtherException sixty_chars) \<rparr>"
  let ?h' = "\<lparr> db_name = Some (ascii ''portfolio''),
               list_collection_names = Inr twelve_collections \<rparr>"
  have h: "db module_listing_fails = Inr (Some ?h)"
      "list_collection_names ?h = Inl (OtherException sixty_chars)"
    by (simp_all add: module_listing_fails_def)
  have h': "db module_working = Inr (Some ?h')"
      "list_collection_names ?h' = Inr twelve_collections"
    by (simp_all add: module_working_def)
  obtain r where r: "test_database module_listing_fails env_configured = Inr r"
      "connection_status r = ascii ''Connected''" "collections r = []"
      "\<forall>dbm' h' cs env'. db dbm' = Inr (Some h') \<and> list_collection_names h' = Inr cs \<longrightarrow>
           (\<exists>r'. test_database dbm' env' = Inr r'
              \<and> connection_status r' = connection_status r
              \<and> database r' \<noteq> database r)"
    using listing_failure_keeps_connected [OF h, of env_configured] by blast
  from r(4) h' obtain r' where "test_database module_working env_configured = Inr r'"
      "connection_status r' = connection_status r"
    by blast
  with r show ?thesis by auto
qed

end
